theory Spec2Isabelle
  imports Complex_Main
begin

section \<open>Conventions\<close>

text \<open>
  The backend is JavaScript on a relational store reached through an ORM. In this
  development
  \<^item> a JavaScript number that holds a coordinate, a distance or an amount of money is a
    \<^typ>\<open>real\<close>: IEEE rounding is not modelled, \<open>Math.PI\<close> is \<^term>\<open>pi\<close>, and a number
    that can be \<open>NaN\<close> is a \<^typ>\<open>real option\<close> with \<open>None\<close> for \<open>NaN\<close>; where a result
    of the source depends on the rounding, the rounded operand is an argument;
  \<^item> identifiers and quantities, which the request validation restricts to integers, are
    \<^typ>\<open>int\<close>;
  \<^item> a table is a list of rows in insertion order, and the store is a record of tables
    that every handler receives and returns;
  \<^item> a handler returns the store together with either the failure it answers
    (HTTP status and message) or the payload of its success answer.
\<close>

section \<open>Geo math (\<open>utils/geolocation\<close>)\<close>

definition toRad :: "real \<Rightarrow> real" where
  "toRad degrees = degrees * (pi / 180)"

definition toDegrees :: "real \<Rightarrow> real" where
  "toDegrees radians = radians * (180 / pi)"

text \<open>\<open>Math.atan2(y, x)\<close> on finite arguments, by the quadrant of \<open>(x, y)\<close>.\<close>

definition js_atan2 :: "real \<Rightarrow> real \<Rightarrow> real" where
  "js_atan2 y x =
     (if 0 < x then arctan (y / x)
      else if x < 0 then (if 0 \<le> y then arctan (y / x) + pi else arctan (y / x) - pi)
      else if 0 < y then pi / 2
      else if y < 0 then - (pi / 2)
      else 0)"

text \<open>\<open>Math.asin\<close> is \<open>NaN\<close> outside \<open>[-1, 1]\<close>.\<close>

definition js_asin :: "real \<Rightarrow> real option" where
  "js_asin x = (if - 1 \<le> x \<and> x \<le> 1 then Some (arcsin x) else None)"

text \<open>\<open>Math.round\<close> rounds to the nearest integer, a half towards plus infinity.\<close>

definition js_round :: "real \<Rightarrow> int" where
  "js_round x = \<lfloor>x + 1 / 2\<rfloor>"

text \<open>
  The haversine term \<open>a\<close> of \<open>calculateDistance\<close>, in exact arithmetic. There it lies
  in \<open>[0, 1]\<close> (lemma \<open>haversine_a_range\<close> below), and it is exactly 1 for antipodal
  points.
\<close>

definition haversine_a :: "real \<Rightarrow> real \<Rightarrow> real \<Rightarrow> real \<Rightarrow> real" where
  "haversine_a lat1 lon1 lat2 lon2 =
     (let dLat = toRad (lat2 - lat1);
          dLon = toRad (lon2 - lon1)
      in sin (dLat / 2) * sin (dLat / 2) +
         cos (toRad lat1) * cos (toRad lat2) * sin (dLon / 2) * sin (dLon / 2))"

text \<open>
  \<open>calculateDistance\<close> in exact arithmetic, where both \<open>Math.sqrt\<close> calls take an
  argument in \<open>[0, 1]\<close> and \<^term>\<open>sqrt\<close> is the source's square root.
\<close>

definition calculateDistance :: "real \<Rightarrow> real \<Rightarrow> real \<Rightarrow> real \<Rightarrow> real" where
  "calculateDistance lat1 lon1 lat2 lon2 =
     (let R = 6371;
          a = haversine_a lat1 lon1 lat2 lon2;
          c = 2 * js_atan2 (sqrt a) (sqrt (1 - a));
          distanceKm = R * c
      in distanceKm * 1000)"

text \<open>
  The source does not clamp the term before \<open>Math.sqrt(1 - a)\<close>. In doubles the term
  carries a rounding error and can exceed 1 by one unit in the last place for antipodal
  points (it is \<open>1 + 2^-52\<close> for the points 12, 0 and -12, 180); \<open>Math.sqrt\<close> of a negative
  number is \<open>NaN\<close>, and so is the distance. \<open>haversine_distance\<close> is the rest of the
  source function (from \<open>const c\<close> on) applied to the term as computed, with that case.
\<close>

definition js_sqrt :: "real \<Rightarrow> real option" where
  "js_sqrt x = (if x < 0 then None else Some (sqrt x))"

definition haversine_distance :: "real \<Rightarrow> real option" where
  "haversine_distance a =
     (case (js_sqrt a, js_sqrt (1 - a)) of
        (Some y, Some x) \<Rightarrow>
          (let R = 6371;
               c = 2 * js_atan2 y x;
               distanceKm = R * c
           in Some (distanceKm * 1000))
      | _ \<Rightarrow> None)"

record boundingBox =
  minLat :: real
  maxLat :: real
  minLng :: "real option"
  maxLng :: "real option"

text \<open>
  \<open>getBoundingBox\<close>: the longitude delta is \<open>Math.asin(Math.sin(d) / Math.cos(latRad))\<close>,
  which is \<open>NaN\<close> when the quotient is infinite or leaves \<open>[-1, 1]\<close>.
\<close>

definition getBoundingBox :: "real \<Rightarrow> real \<Rightarrow> real \<Rightarrow> boundingBox" where
  "getBoundingBox lat lng radius =
     (let earthRadius = 6371000;
          latRad = toRad lat;
          lngRad = toRad lng;
          angularDistance = radius / earthRadius;
          minLat' = latRad - angularDistance;
          maxLat' = latRad + angularDistance;
          deltaLng = (if cos latRad = 0 then None
                      else js_asin (sin angularDistance / cos latRad));
          minLng' = map_option (\<lambda>d. lngRad - d) deltaLng;
          maxLng' = map_option (\<lambda>d. lngRad + d) deltaLng
      in \<lparr>minLat = toDegrees minLat', maxLat = toDegrees maxLat',
          minLng = map_option toDegrees minLng', maxLng = map_option toDegrees maxLng'\<rparr>)"

section \<open>Data model\<close>

datatype order_status =
  PENDING | CONFIRMED | PREPARING | OUT_FOR_DELIVERY | DELIVERED | CANCELLED

datatype payment_method = CASH | CARD | MOBILE_MONEY

datatype role = USER | HOTEL_ADMIN | ADMIN

record menuItem =
  menuItem_id :: int
  menuItem_name :: string
  price :: real
  isAvailable :: bool

record hotel =
  hotel_id :: int
  isActive :: bool
  latitude :: "real option"
  longitude :: "real option"
  cuisineType :: "string option"
  deliveryRadius :: int
  deliveryFee :: real
  minOrderAmount :: real
  menuItems :: "menuItem list"
  hotel_rating :: real
  totalReviews :: nat

record cartItem =
  item_menuItemId :: int
  item_quantity :: int

record orderItem =
  menuItemId :: int
  quantity :: int
  unitPrice :: real
  subtotal :: real
  orderId :: "int option"

record order =
  order_id :: int
  orderNumber :: string
  order_userId :: int
  order_hotelId :: int
  totalAmount :: real
  deliveryAddress :: string
  deliveryTime :: "string option"
  status :: order_status
  paymentMethod :: payment_method
  paymentStatus :: string
  specialInstructions :: "string option"
  deliveryNotes :: "string option"

record review =
  review_userId :: int
  review_hotelId :: int
  review_orderId :: int
  rating :: int
  comment :: "string option"
  images :: "string list"

text \<open>The store: one list per table, and the next value of the order id sequence.\<close>

record db =
  hotels :: "hotel list"
  orders :: "order list"
  orderItems :: "orderItem list"
  reviews :: "review list"
  nextOrderId :: int

text \<open>\<open>req.user\<close>, as the authentication middleware attaches it.\<close>

record principal =
  user_id :: int
  user_role :: role
  user_hotelId :: "int option"

text \<open>The failure answers of the handlers: \<open>res.status(n).json({message})\<close>.\<close>

datatype message =
  HotelNotFoundOrNotActive
  | MenuItemNotFoundOrNotAvailable int
  | InvalidQuantityForItem string
  | MinimumOrderAmountIs real
  | StripeNotConfigured
  | OrderNotFound
  | NotAuthorizedToUpdateThisOrder
  | OrderNotFoundOrCannotBeCancelled
  | OrderNotFoundOrCannotBeReviewed
  | YouHaveAlreadyReviewedThisOrder
  | LatitudeAndLongitudeAreRequired
  | ValidationFailed

type_synonym failure = "nat \<times> message"

text \<open>A JavaScript string used as a condition is true when it is present and not empty.\<close>

definition truthy :: "string option \<Rightarrow> bool" where
  "truthy s = (case s of None \<Rightarrow> False | Some v \<Rightarrow> v \<noteq> [])"

section \<open>Order placement (\<open>orderController.createOrder\<close>)\<close>

record createOrderBody =
  body_hotelId :: int
  body_deliveryAddress :: string
  body_items :: "cartItem list"
  body_deliveryTime :: "string option"
  body_specialInstructions :: "string option"
  body_paymentMethod :: "payment_method option"

text \<open>
  The \<open>for (const item of items)\<close> loop, with its two accumulators \<open>totalAmount\<close> and
  \<open>orderItems\<close>; a \<open>return res.status(400)\<close> inside the loop is an \<open>Inl\<close>.
\<close>

fun price_items ::
  "menuItem list \<Rightarrow> cartItem list \<Rightarrow> real \<Rightarrow> orderItem list \<Rightarrow> failure + real \<times> orderItem list"
where
  "price_items menu [] amount acc = Inr (amount, acc)"
| "price_items menu (item # rest) amount acc =
     (case find (\<lambda>m. menuItem_id m = item_menuItemId item) menu of
        None \<Rightarrow> Inl (400, MenuItemNotFoundOrNotAvailable (item_menuItemId item))
      | Some found \<Rightarrow>
          if item_quantity item < 1 then Inl (400, InvalidQuantityForItem (menuItem_name found))
          else
            let sub = price found * real_of_int (item_quantity item)
            in price_items menu rest (amount + sub)
                 (acc @ [\<lparr>menuItemId = menuItem_id found, quantity = item_quantity item,
                          unitPrice = price found, subtotal = sub, orderId = None\<rparr>]))"

text \<open>
  \<open>createOrder\<close>. The order number comes from the clock and a random source and is an
  argument here; \<open>stripe\<close> says whether the card gateway is configured: when it is not,
  the payment step throws after the transaction has committed, and the answer is an
  error although the order is stored. The two inserts of the transaction are one step
  of the model. Notifications and the payment answer do not touch the store and are
  left out of the payload. The caller is taken to have a user row (the authentication
  middleware has loaded it), and failures raised by the store itself are not modelled.
\<close>

definition createOrder ::
  "bool \<Rightarrow> string \<Rightarrow> db \<Rightarrow> principal \<Rightarrow> createOrderBody
     \<Rightarrow> db \<times> (failure + order \<times> orderItem list)"
where
  "createOrder stripe number d user body =
     (let method = (case body_paymentMethod body of None \<Rightarrow> CASH | Some m \<Rightarrow> m)
      in case find (\<lambda>h. hotel_id h = body_hotelId body \<and> isActive h) (hotels d) of
           None \<Rightarrow> (d, Inl (404, HotelNotFoundOrNotActive))
         | Some h \<Rightarrow>
             (case price_items (filter isAvailable (menuItems h)) (body_items body) 0 [] of
                Inl e \<Rightarrow> (d, Inl e)
              | Inr (amount, priced) \<Rightarrow>
                  if amount < minOrderAmount h then (d, Inl (400, MinimumOrderAmountIs (minOrderAmount h)))
                  else
                    let amount' = amount + deliveryFee h;
                        newOrder = \<lparr>order_id = nextOrderId d, orderNumber = number,
                                    order_userId = user_id user, order_hotelId = body_hotelId body,
                                    totalAmount = amount',
                                    deliveryAddress = body_deliveryAddress body,
                                    deliveryTime = (if truthy (body_deliveryTime body)
                                                    then body_deliveryTime body else None),
                                    status = PENDING, paymentMethod = method,
                                    paymentStatus = (if method = CASH then ''PENDING'' else ''PENDING''),
                                    specialInstructions = body_specialInstructions body,
                                    deliveryNotes = None\<rparr>;
                        rows = map (\<lambda>i. i\<lparr>orderId := Some (order_id newOrder)\<rparr>) priced;
                        d' = d\<lparr>orders := orders d @ [newOrder],
                               orderItems := orderItems d @ rows,
                               nextOrderId := nextOrderId d + 1\<rparr>
                    in if method = CARD \<and> \<not> stripe then (d', Inl (500, StripeNotConfigured))
                       else (d', Inr (newOrder,
                                      filter (\<lambda>i. orderId i = Some (order_id newOrder)) (orderItems d')))))"

section \<open>Order status (\<open>orderController.updateOrderStatus\<close>, \<open>cancelOrder\<close>)\<close>

text \<open>
  \<open>updateOrderStatus\<close>. The route validation \<open>orderRules.updateStatus\<close> admits the six
  status strings only, so the handler receives a value of \<^typ>\<open>order_status\<close>.
\<close>

definition updateOrderStatus ::
  "db \<Rightarrow> principal \<Rightarrow> int \<Rightarrow> order_status \<Rightarrow> string option \<Rightarrow> db \<times> (failure + order)"
where
  "updateOrderStatus d user oid newStatus notes =
     (case find (\<lambda>x. order_id x = oid) (orders d) of
        None \<Rightarrow> (d, Inl (404, OrderNotFound))
      | Some ord \<Rightarrow>
          if user_role user = HOTEL_ADMIN \<and> Some (order_hotelId ord) \<noteq> user_hotelId user
          then (d, Inl (403, NotAuthorizedToUpdateThisOrder))
          else
            let upd = (\<lambda>x. x\<lparr>status := newStatus,
                              deliveryNotes := (if truthy notes then notes else deliveryNotes x)\<rparr>)
            in (d\<lparr>orders := map (\<lambda>x. if order_id x = oid then upd x else x) (orders d)\<rparr>,
                Inr (upd ord)))"

definition cancelOrder :: "db \<Rightarrow> principal \<Rightarrow> int \<Rightarrow> db \<times> (failure + order)" where
  "cancelOrder d user oid =
     (case find (\<lambda>x. order_id x = oid \<and> order_userId x = user_id user
                      \<and> status x \<in> set [PENDING, CONFIRMED]) (orders d) of
        None \<Rightarrow> (d, Inl (404, OrderNotFoundOrCannotBeCancelled))
      | Some ord \<Rightarrow>
          let upd = (\<lambda>x. x\<lparr>status := CANCELLED, paymentStatus := ''REFUNDED''\<rparr>)
          in (d\<lparr>orders := map (\<lambda>x. if order_id x = oid then upd x else x) (orders d)\<rparr>,
              Inr (upd ord)))"

section \<open>Reviews (\<open>userController.submitReview\<close>)\<close>

text \<open>The aggregate \<open>_avg.rating || 0\<close> over the reviews of one hotel.\<close>

definition avg_rating :: "review list \<Rightarrow> real" where
  "avg_rating rs =
     (if rs = [] then 0
      else real_of_int (sum_list (map rating rs)) / real (length rs))"

definition submitReview ::
  "db \<Rightarrow> principal \<Rightarrow> int \<Rightarrow> int \<Rightarrow> string option \<Rightarrow> string list option
     \<Rightarrow> db \<times> (failure + review)"
where
  "submitReview d user oid stars cmt imgs =
     (case find (\<lambda>x. order_id x = oid \<and> order_userId x = user_id user \<and> status x = DELIVERED)
             (orders d) of
        None \<Rightarrow> (d, Inl (404, OrderNotFoundOrCannotBeReviewed))
      | Some ord \<Rightarrow>
          (case find (\<lambda>r. review_orderId r = oid \<and> review_userId r = user_id user) (reviews d) of
             Some existingReview \<Rightarrow> (d, Inl (400, YouHaveAlreadyReviewedThisOrder))
           | None \<Rightarrow>
               let newReview = \<lparr>review_userId = user_id user,
                                review_hotelId = order_hotelId ord,
                                review_orderId = oid, rating = stars, comment = cmt,
                                images = (case imgs of None \<Rightarrow> [] | Some l \<Rightarrow> l)\<rparr>;
                   allReviews = reviews d @ [newReview];
                   hotelReviews = filter (\<lambda>r. review_hotelId r = order_hotelId ord) allReviews
               in (d\<lparr>reviews := allReviews,
                      hotels := map (\<lambda>h. if hotel_id h = order_hotelId ord
                                          then h\<lparr>hotel_rating := avg_rating hotelReviews,
                                                 totalReviews := length hotelReviews\<rparr>
                                          else h) (hotels d)\<rparr>,
                   Inr newReview)))"

section \<open>Proximity search (\<open>hotelController.getNearbyHotels\<close>)\<close>

record nearbyQuery =
  q_latitude :: "real option"
  q_longitude :: "real option"
  q_radius :: "int option"
  q_cuisine :: "string option"

record nearbyHotel =
  nh_hotel :: hotel
  distance :: int
  isDeliverable :: bool
  estimatedDeliveryTime :: int

text \<open>
  The store's comparison of a nullable column with a bound: a null column matches
  nothing, and neither does a \<open>NaN\<close> bound.
\<close>

definition gte :: "real option \<Rightarrow> real option \<Rightarrow> bool" where
  "gte col bound = (case (col, bound) of (Some v, Some b) \<Rightarrow> b \<le> v | _ \<Rightarrow> False)"

definition lte :: "real option \<Rightarrow> real option \<Rightarrow> bool" where
  "lte col bound = (case (col, bound) of (Some v, Some b) \<Rightarrow> v \<le> b | _ \<Rightarrow> False)"

text \<open>
  The callback of \<open>hotels.map\<close>: \<open>null\<close> for a hotel whose latitude or longitude is
  falsy (null, or the number 0), an entry otherwise. A distance that is \<open>NaN\<close> fails
  \<open>distance <= hotel.deliveryRadius\<close>, so such an entry never passes the filter that
  follows; the entries are modelled with the distance of exact arithmetic.
\<close>

definition nearby_entry :: "real \<Rightarrow> real \<Rightarrow> hotel \<Rightarrow> nearbyHotel option" where
  "nearby_entry userLat userLon h =
     (case (latitude h, longitude h) of
        (Some hlat, Some hlon) \<Rightarrow>
          if hlat = 0 \<or> hlon = 0 then None
          else
            let dist = calculateDistance userLat userLon hlat hlon;
                deliverable = (dist \<le> real_of_int (deliveryRadius h))
            in Some \<lparr>nh_hotel = h, distance = js_round dist, isDeliverable = deliverable,
                     estimatedDeliveryTime = js_round (dist / 500 * 10 + 20)\<rparr>
      | _ \<Rightarrow> None)"

text \<open>
  The store's filter \<open>{contains: cuisine, mode: 'insensitive'}\<close> on a text column:
  a substring match that ignores the case of ASCII letters.
\<close>

definition lower :: "char \<Rightarrow> char" where
  "lower c = (let n = (of_char c :: nat) in if 65 \<le> n \<and> n \<le> 90 then char_of (n + 32) else c)"

fun has_prefix :: "string \<Rightarrow> string \<Rightarrow> bool" where
  "has_prefix [] ys = True"
| "has_prefix (x # xs) [] = False"
| "has_prefix (x # xs) (y # ys) = (x = y \<and> has_prefix xs ys)"

fun contains :: "string \<Rightarrow> string \<Rightarrow> bool" where
  "contains [] needle = (needle = [])"
| "contains (c # cs) needle = (has_prefix needle (c # cs) \<or> contains cs needle)"

definition contains_insensitive :: "string \<Rightarrow> string \<Rightarrow> bool" where
  "contains_insensitive col needle = contains (map lower col) (map lower needle)"

text \<open>
  \<open>getNearbyHotels\<close>. The query arrives parsed: an absent or empty parameter is
  \<open>None\<close>. The comparator \<open>a.distance - b.distance\<close> orders the entries by their
  \<open>distance\<close> field; \<open>Array.prototype.sort\<close> is stable, as is \<^const>\<open>sort_key\<close>, so
  entries with equal keys keep their order. \<open>slice(0, 20)\<close> is \<^term>\<open>take 20\<close>.
\<close>

definition getNearbyHotels :: "db \<Rightarrow> nearbyQuery \<Rightarrow> failure + nearbyHotel list" where
  "getNearbyHotels d q =
     (case (q_latitude q, q_longitude q) of
        (Some userLat, Some userLon) \<Rightarrow>
          let searchRadius = (case q_radius q of None \<Rightarrow> 3000 | Some r \<Rightarrow> r);
              bbox = getBoundingBox userLat userLon (real_of_int searchRadius);
              matches = (\<lambda>h. isActive h
                              \<and> gte (latitude h) (Some (minLat bbox))
                              \<and> lte (latitude h) (Some (maxLat bbox))
                              \<and> gte (longitude h) (minLng bbox)
                              \<and> lte (longitude h) (maxLng bbox)
                              \<and> (if truthy (q_cuisine q)
                                 then (case cuisineType h of
                                         None \<Rightarrow> False
                                       | Some c \<Rightarrow> contains_insensitive c (the (q_cuisine q)))
                                 else True));
              found = filter matches (hotels d);
              mapped = map (nearby_entry userLat userLon) found;
              kept = [e. Some e \<leftarrow> mapped, isDeliverable e]
          in Inr (take 20 (sort_key distance kept))
      | _ \<Rightarrow> Inl (400, LatitudeAndLongitudeAreRequired))"

section \<open>The specification's vocabulary\<close>

text \<open>
  The status lifecycle as the specification draws it (section 4.5); the source has no
  such table. It is used only to state what the specification claims.
\<close>

fun spec_lifecycle_edge :: "order_status \<Rightarrow> order_status \<Rightarrow> bool" where
  "spec_lifecycle_edge PENDING CONFIRMED = True"
| "spec_lifecycle_edge CONFIRMED PREPARING = True"
| "spec_lifecycle_edge PREPARING OUT_FOR_DELIVERY = True"
| "spec_lifecycle_edge OUT_FOR_DELIVERY DELIVERED = True"
| "spec_lifecycle_edge PENDING CANCELLED = True"
| "spec_lifecycle_edge CONFIRMED CANCELLED = True"
| "spec_lifecycle_edge _ _ = False"

text \<open>
  The handlers answer a caller who is not authorized with HTTP 403
  (\<open>updateOrderStatus\<close>, \<open>getHotelOrders\<close>); that is the specification's
  \<open>PermissionDenied\<close>.
\<close>

fun permission_denied :: "failure + 'a \<Rightarrow> bool" where
  "permission_denied (Inl (code, msg)) = (code = 403)"
| "permission_denied (Inr v) = False"

section \<open>Sample data\<close>

text \<open>
  The hotel of the specification's examples (delivery fee 2.99, minimum order 10.00, at
  the coordinates of the seed's second hotel) with items priced 6.00 and 4.00.
\<close>

definition sample_menu :: "menuItem list" where
  "sample_menu =
     [\<lparr>menuItem_id = 1, menuItem_name = ''Edamame'', price = 6, isAvailable = True\<rparr>,
      \<lparr>menuItem_id = 2, menuItem_name = ''Miso Soup'', price = 4, isAvailable = True\<rparr>,
      \<lparr>menuItem_id = 3, menuItem_name = ''Sushi Platter'', price = 9, isAvailable = False\<rparr>]"

definition sample_hotel :: hotel where
  "sample_hotel = \<lparr>hotel_id = 1, isActive = True, latitude = Some 40.7489,
                    longitude = Some (- 73.968), cuisineType = Some ''Japanese'',
                    deliveryRadius = 4000, deliveryFee = 2.99, minOrderAmount = 10,
                    menuItems = sample_menu, hotel_rating = 0, totalReviews = 0\<rparr>"

definition sample_db :: db where
  "sample_db = \<lparr>hotels = [sample_hotel], orders = [], orderItems = [], reviews = [],
                 nextOrderId = 1\<rparr>"

definition sample_user :: principal where
  "sample_user = \<lparr>user_id = 7, user_role = USER, user_hotelId = None\<rparr>"

definition other_user :: principal where
  "other_user = \<lparr>user_id = 8, user_role = USER, user_hotelId = None\<rparr>"

definition sample_admin :: principal where
  "sample_admin = \<lparr>user_id = 1, user_role = ADMIN, user_hotelId = None\<rparr>"

definition other_hotel_admin :: principal where
  "other_hotel_admin = \<lparr>user_id = 2, user_role = HOTEL_ADMIN, user_hotelId = Some 2\<rparr>"

definition sample_body :: "cartItem list \<Rightarrow> createOrderBody" where
  "sample_body its = \<lparr>body_hotelId = 1, body_deliveryAddress = ''12 Office Park'',
                       body_items = its, body_deliveryTime = None,
                       body_specialInstructions = None, body_paymentMethod = None\<rparr>"

text \<open>The order that \<open>sample_user\<close> places for two items of 6.00, in a given status.\<close>

definition sample_order :: "order_status \<Rightarrow> order" where
  "sample_order st = \<lparr>order_id = 1, orderNumber = ''ORD-20231215-ABC121234'',
                       order_userId = 7, order_hotelId = 1, totalAmount = 14.99,
                       deliveryAddress = ''12 Office Park'', deliveryTime = None,
                       status = st, paymentMethod = CASH, paymentStatus = ''PENDING'',
                       specialInstructions = None, deliveryNotes = None\<rparr>"

definition sample_rows :: "orderItem list" where
  "sample_rows = [\<lparr>menuItemId = 1, quantity = 2, unitPrice = 6, subtotal = 12,
                    orderId = Some 1\<rparr>]"

definition db_with_order :: "order_status \<Rightarrow> db" where
  "db_with_order st = \<lparr>hotels = [sample_hotel], orders = [sample_order st],
                        orderItems = sample_rows, reviews = [], nextOrderId = 2\<rparr>"

definition sample_review :: review where
  "sample_review = \<lparr>review_userId = 7, review_hotelId = 1, review_orderId = 1, rating = 4,
                     comment = Some ''Good'', images = []\<rparr>"

text \<open>The store after \<open>sample_user\<close> has reviewed the delivered order with 4 stars.\<close>

definition reviewed_db :: db where
  "reviewed_db = \<lparr>hotels = [sample_hotel\<lparr>hotel_rating := 4, totalReviews := 1\<rparr>],
                   orders = [sample_order DELIVERED], orderItems = sample_rows,
                   reviews = [sample_review], nextOrderId = 2\<rparr>"

text \<open>The same store after an administrator has set the reviewed order back to \<open>PENDING\<close>.\<close>

definition reopened_db :: db where
  "reopened_db = \<lparr>hotels = [sample_hotel\<lparr>hotel_rating := 4, totalReviews := 1\<rparr>],
                   orders = [sample_order PENDING], orderItems = sample_rows,
                   reviews = [sample_review], nextOrderId = 2\<rparr>"

text \<open>
  Two active hotels in one building, a fraction of a metre apart, and a caller at the
  seed's coordinates 40.7489, -73.968.
\<close>

definition hotel_a :: hotel where
  "hotel_a = \<lparr>hotel_id = 2, isActive = True, latitude = Some 40.748902,
               longitude = Some (- 73.968), cuisineType = Some ''Japanese'',
               deliveryRadius = 4000, deliveryFee = 2.99, minOrderAmount = 10,
               menuItems = [], hotel_rating = 0, totalReviews = 0\<rparr>"

definition hotel_b :: hotel where
  "hotel_b = \<lparr>hotel_id = 3, isActive = True, latitude = Some 40.748901,
               longitude = Some (- 73.968), cuisineType = Some ''Mediterranean'',
               deliveryRadius = 3500, deliveryFee = 2.5, minOrderAmount = 10,
               menuItems = [], hotel_rating = 0, totalReviews = 0\<rparr>"

text \<open>In the same building, a hotel that is not active and one with no coordinates.\<close>

definition closed_hotel :: hotel where
  "closed_hotel = \<lparr>hotel_id = 4, isActive = False, latitude = Some 40.748902,
                    longitude = Some (- 73.968), cuisineType = Some ''International'',
                    deliveryRadius = 5000, deliveryFee = 3.99, minOrderAmount = 15,
                    menuItems = [], hotel_rating = 0, totalReviews = 0\<rparr>"

definition unlocated_hotel :: hotel where
  "unlocated_hotel = \<lparr>hotel_id = 5, isActive = True, latitude = None, longitude = None,
                       cuisineType = None, deliveryRadius = 5000, deliveryFee = 3.99,
                       minOrderAmount = 15, menuItems = [], hotel_rating = 0,
                       totalReviews = 0\<rparr>"

definition building_db :: db where
  "building_db = \<lparr>hotels = [hotel_a, closed_hotel, hotel_b, unlocated_hotel], orders = [],
                   orderItems = [], reviews = [], nextOrderId = 1\<rparr>"

definition sample_query :: nearbyQuery where
  "sample_query = \<lparr>q_latitude = Some 40.7489, q_longitude = Some (- 73.968),
                    q_radius = None, q_cuisine = None\<rparr>"

definition entry_a :: nearbyHotel where
  "entry_a = \<lparr>nh_hotel = hotel_a, distance = 0, isDeliverable = True,
               estimatedDeliveryTime = 20\<rparr>"

definition entry_b :: nearbyHotel where
  "entry_b = \<lparr>nh_hotel = hotel_b, distance = 0, isDeliverable = True,
               estimatedDeliveryTime = 20\<rparr>"

section \<open>Properties of the geo math\<close>

lemma sin_half_sq: "sin (x / 2) * sin (x / 2) = (1 - cos x) / (2::real)"
  using cos_double_sin [of "x / 2"] by (simp add: power2_eq_square)

lemma toRad_diff: "toRad (x - y) = toRad x - toRad y"
  by (simp add: toRad_def left_diff_distrib)

lemma haversine_a_sym:
  "haversine_a lat1 lon1 lat2 lon2 = haversine_a lat2 lon2 lat1 lon1"
proof -
  have "cos (toRad (lat2 - lat1)) = cos (toRad (lat1 - lat2))"
    using cos_minus [of "toRad (lat1 - lat2)"] by (simp add: toRad_diff)
  moreover have "cos (toRad (lon2 - lon1)) = cos (toRad (lon1 - lon2))"
    using cos_minus [of "toRad (lon1 - lon2)"] by (simp add: toRad_diff)
  ultimately show ?thesis
    by (simp add: haversine_a_def Let_def mult.assoc sin_half_sq mult.commute)
qed

lemma haversine_a_between:
  fixes p q k :: real
  assumes "0 \<le> k" "k \<le> 1"
  shows "min p q \<le> p + (q - p) * k" "p + (q - p) * k \<le> max p q"
proof -
  have "p + (q - p) * k = (1 - k) * p + k * q" by (simp add: algebra_simps)
  moreover have "(1 - k) * min p q \<le> (1 - k) * p" "k * min p q \<le> k * q"
     "(1 - k) * p \<le> (1 - k) * max p q" "k * q \<le> k * max p q"
    using assms by (auto intro!: mult_left_mono)
  moreover have "(1 - k) * min p q + k * min p q = min p q" "(1 - k) * max p q + k * max p q = max p q"
    by (simp_all add: algebra_simps)
  ultimately show "min p q \<le> p + (q - p) * k" "p + (q - p) * k \<le> max p q"
    by linarith+
qed

lemma half_one_minus_cos: "0 \<le> (1 - cos (x::real)) / 2 \<and> (1 - cos x) / 2 \<le> 1"
  using cos_le_one [of x] cos_ge_minus_one [of x] by auto

lemma half_one_plus_cos: "0 \<le> (1 + cos (x::real)) / 2 \<and> (1 + cos x) / 2 \<le> 1"
  using cos_le_one [of x] cos_ge_minus_one [of x] by (auto simp: field_simps; linarith)

lemma haversine_a_range:
  "0 \<le> haversine_a lat1 lon1 lat2 lon2" "haversine_a lat1 lon1 lat2 lon2 \<le> 1"
proof -
  define u where "u = toRad lat1"
  define v where "v = toRad lat2"
  define k where "k = sin (toRad (lon2 - lon1) / 2) * sin (toRad (lon2 - lon1) / 2)"
  define p where "p = (1 - cos (v - u)) / 2"
  define q where "q = (1 + cos (v + u)) / 2"
  have k: "0 \<le> k" "k \<le> 1"
    using cos_le_one [of "toRad (lon2 - lon1)"] cos_ge_minus_one [of "toRad (lon2 - lon1)"]
    by (simp_all add: k_def sin_half_sq)
  have p: "0 \<le> p \<and> p \<le> 1"
    unfolding p_def by (rule half_one_minus_cos)
  have q: "0 \<le> q \<and> q \<le> 1"
    unfolding q_def by (rule half_one_plus_cos)
  have qp: "q - p = cos u * cos v"
    by (simp add: p_def q_def cos_add cos_diff field_simps)
  have "sin (toRad (lat2 - lat1) / 2) * sin (toRad (lat2 - lat1) / 2) = p"
    by (simp only: sin_half_sq p_def u_def v_def toRad_diff)
  then have a: "haversine_a lat1 lon1 lat2 lon2 = p + (q - p) * k"
    unfolding qp by (simp add: haversine_a_def Let_def k_def u_def v_def mult.assoc)
  from haversine_a_between [OF k, of p q] p q
  show "0 \<le> haversine_a lat1 lon1 lat2 lon2" "haversine_a lat1 lon1 lat2 lon2 \<le> 1"
    unfolding a by auto
qed

lemma js_atan2_nonneg: "0 \<le> y \<Longrightarrow> 0 \<le> x \<Longrightarrow> 0 \<le> js_atan2 y x"
  by (simp add: js_atan2_def)

text \<open>
  In exact arithmetic \<open>calculateDistance\<close> is symmetric in its two points, is zero from a
  point to itself, and is never negative, for all real coordinates; and the rest of the
  source function, applied to the exact term, yields that distance.
\<close>

lemma calculateDistance_exact_arithmetic:
  "calculateDistance lat1 lon1 lat2 lon2 = calculateDistance lat2 lon2 lat1 lon1
   \<and> calculateDistance lat1 lon1 lat1 lon1 = 0
   \<and> 0 \<le> calculateDistance lat1 lon1 lat2 lon2"
proof (intro conjI)
  show "calculateDistance lat1 lon1 lat2 lon2 = calculateDistance lat2 lon2 lat1 lon1"
    by (simp add: calculateDistance_def haversine_a_sym [of lat1 lon1 lat2 lon2])
  have "haversine_a lat1 lon1 lat1 lon1 = 0"
    by (simp add: haversine_a_def toRad_def)
  then show "calculateDistance lat1 lon1 lat1 lon1 = 0"
    by (simp add: calculateDistance_def js_atan2_def)
  have "0 \<le> js_atan2 (sqrt (haversine_a lat1 lon1 lat2 lon2)) (sqrt (1 - haversine_a lat1 lon1 lat2 lon2))"
    using haversine_a_range [of lat1 lon1 lat2 lon2] by (intro js_atan2_nonneg) simp_all
  then show "0 \<le> calculateDistance lat1 lon1 lat2 lon2"
    by (simp add: calculateDistance_def Let_def)
qed

lemma haversine_distance_exact:
  "haversine_distance (haversine_a lat1 lon1 lat2 lon2)
     = Some (calculateDistance lat1 lon1 lat2 lon2)"
  using haversine_a_range [of lat1 lon1 lat2 lon2]
  by (simp add: haversine_distance_def js_sqrt_def calculateDistance_def Let_def)



section \<open>Properties of order placement\<close>

lemma price_items_Inr:
  "price_items menu its amount acc = Inr (t, priced) \<Longrightarrow>
   \<exists>new. priced = acc @ new
      \<and> t = amount + (\<Sum>i\<leftarrow>new. unitPrice i * real_of_int (quantity i))
      \<and> list_all2 (\<lambda>l i. \<exists>m. find (\<lambda>m. menuItem_id m = item_menuItemId l) menu = Some m
                      \<and> menuItemId i = menuItem_id m \<and> quantity i = item_quantity l
                      \<and> unitPrice i = price m \<and> subtotal i = unitPrice i * real_of_int (quantity i)
                      \<and> orderId i = None \<and> 1 \<le> quantity i) its new"
proof (induction its arbitrary: amount acc)
  case Nil
  then show ?case by simp
next
  case (Cons l its)
  from Cons.prems obtain m where m: "find (\<lambda>m. menuItem_id m = item_menuItemId l) menu = Some m"
    by (auto split: option.splits)
  with Cons.prems have q: "1 \<le> item_quantity l" by (auto split: if_splits)
  define row where "row = \<lparr>menuItemId = menuItem_id m, quantity = item_quantity l,
      unitPrice = price m, subtotal = price m * real_of_int (item_quantity l), orderId = None\<rparr>"
  from Cons.prems m q have "price_items menu its (amount + price m * real_of_int (item_quantity l)) (acc @ [row])
      = Inr (t, priced)"
    by (simp add: row_def Let_def)
  from Cons.IH [OF this] obtain new where new: "priced = (acc @ [row]) @ new"
      "t = amount + price m * real_of_int (item_quantity l) + (\<Sum>i\<leftarrow>new. unitPrice i * real_of_int (quantity i))"
      "list_all2 (\<lambda>l i. \<exists>m. find (\<lambda>m. menuItem_id m = item_menuItemId l) menu = Some m
                      \<and> menuItemId i = menuItem_id m \<and> quantity i = item_quantity l
                      \<and> unitPrice i = price m \<and> subtotal i = unitPrice i * real_of_int (quantity i)
                      \<and> orderId i = None \<and> 1 \<le> quantity i) its new"
    by blast
  show ?case
  proof (intro exI [of _ "row # new"] conjI)
    show "priced = acc @ row # new" using new(1) by simp
    show "t = amount + (\<Sum>i\<leftarrow>row # new. unitPrice i * real_of_int (quantity i))"
      using new(2) by (simp add: row_def)
    show "list_all2 (\<lambda>l i. \<exists>m. find (\<lambda>m. menuItem_id m = item_menuItemId l) menu = Some m
                      \<and> menuItemId i = menuItem_id m \<and> quantity i = item_quantity l
                      \<and> unitPrice i = price m \<and> subtotal i = unitPrice i * real_of_int (quantity i)
                      \<and> orderId i = None \<and> 1 \<le> quantity i) (l # its) (row # new)"
      using new(3) m q by (simp add: row_def)
  qed
qed

lemma price_items_valid:
  "\<forall>l\<in>set its. 1 \<le> item_quantity l
       \<and> find (\<lambda>m. menuItem_id m = item_menuItemId l) menu \<noteq> None \<Longrightarrow>
   \<exists>priced. price_items menu its amount acc =
     Inr (amount + (\<Sum>l\<leftarrow>its. price (the (find (\<lambda>m. menuItem_id m = item_menuItemId l) menu))
                             * real_of_int (item_quantity l)), priced)"
proof (induction its arbitrary: amount acc)
  case Nil
  then show ?case by simp
next
  case (Cons l its)
  then obtain m where m: "find (\<lambda>m. menuItem_id m = item_menuItemId l) menu = Some m"
    and q: "1 \<le> item_quantity l"
    by auto
  from Cons.prems have "\<forall>l\<in>set its. 1 \<le> item_quantity l
       \<and> find (\<lambda>m. menuItem_id m = item_menuItemId l) menu \<noteq> None" by simp
  from Cons.IH [OF this, of "amount + price m * real_of_int (item_quantity l)"
      "acc @ [\<lparr>menuItemId = menuItem_id m, quantity = item_quantity l, unitPrice = price m,
               subtotal = price m * real_of_int (item_quantity l), orderId = None\<rparr>]"]
  obtain priced where "price_items menu its (amount + price m * real_of_int (item_quantity l))
      (acc @ [\<lparr>menuItemId = menuItem_id m, quantity = item_quantity l, unitPrice = price m,
               subtotal = price m * real_of_int (item_quantity l), orderId = None\<rparr>]) =
     Inr (amount + price m * real_of_int (item_quantity l)
          + (\<Sum>l\<leftarrow>its. price (the (find (\<lambda>m. menuItem_id m = item_menuItemId l) menu))
                             * real_of_int (item_quantity l)), priced)"
    by blast
  with m q show ?case
    by (simp add: Let_def add.assoc)
qed

text \<open>
  C1. When \<open>createOrder\<close> answers with success, the order row it has appended carries
  as \<open>totalAmount\<close> the sum over its order item rows of unit price times quantity,
  plus the delivery fee of the hotel; there is one order item row per cart line, in
  order, with the quantity of the line and, as unit price, the price of the available
  menu item the line names; and each row's subtotal is its unit price times its quantity.
\<close>

theorem createOrder_totalAmount:
  assumes "createOrder stripe number d user body = (d', Inr (ord, its))"
  shows "\<exists>h rows.
      find (\<lambda>h. hotel_id h = body_hotelId body \<and> isActive h) (hotels d) = Some h
    \<and> orders d' = orders d @ [ord]
    \<and> orderItems d' = orderItems d @ rows
    \<and> list_all2 (\<lambda>l i. \<exists>m. find (\<lambda>m. menuItem_id m = item_menuItemId l)
                                  (filter isAvailable (menuItems h)) = Some m
                          \<and> menuItemId i = menuItem_id m \<and> quantity i = item_quantity l
                          \<and> unitPrice i = price m \<and> orderId i = Some (order_id ord))
          (body_items body) rows
    \<and> (\<forall>i\<in>set rows. subtotal i = unitPrice i * real_of_int (quantity i))
    \<and> totalAmount ord = (\<Sum>i\<leftarrow>rows. unitPrice i * real_of_int (quantity i)) + deliveryFee h"
proof -
  from assms obtain h where h: "find (\<lambda>h. hotel_id h = body_hotelId body \<and> isActive h) (hotels d) = Some h"
    by (auto simp: createOrder_def Let_def split: option.splits)
  from assms h obtain t priced where
    p: "price_items (filter isAvailable (menuItems h)) (body_items body) 0 [] = Inr (t, priced)"
    by (auto simp: createOrder_def Let_def split: sum.splits)
  from assms h p have ok: "\<not> t < minOrderAmount h"
    by (auto simp: createOrder_def Let_def split: if_splits)
  define rows where "rows = map (\<lambda>i. i\<lparr>orderId := Some (nextOrderId d)\<rparr>) priced"
  from assms h p ok have ord: "order_id ord = nextOrderId d" "totalAmount ord = t + deliveryFee h"
    and d': "orders d' = orders d @ [ord]" "orderItems d' = orderItems d @ rows"
    by (auto simp: createOrder_def Let_def rows_def split: if_splits)
  from price_items_Inr [OF p] have t: "t = (\<Sum>i\<leftarrow>priced. unitPrice i * real_of_int (quantity i))"
    and l: "list_all2 (\<lambda>l i. \<exists>m. find (\<lambda>m. menuItem_id m = item_menuItemId l)
                                  (filter isAvailable (menuItems h)) = Some m
                      \<and> menuItemId i = menuItem_id m \<and> quantity i = item_quantity l
                      \<and> unitPrice i = price m \<and> subtotal i = unitPrice i * real_of_int (quantity i)
                      \<and> orderId i = None \<and> 1 \<le> quantity i) (body_items body) priced"
    by auto
  have sum: "(\<Sum>i\<leftarrow>rows. unitPrice i * real_of_int (quantity i)) = t"
    unfolding t rows_def by (simp add: comp_def)
  have rel: "list_all2 (\<lambda>l i. \<exists>m. find (\<lambda>m. menuItem_id m = item_menuItemId l)
                                  (filter isAvailable (menuItems h)) = Some m
                          \<and> menuItemId i = menuItem_id m \<and> quantity i = item_quantity l
                          \<and> unitPrice i = price m \<and> orderId i = Some (order_id ord))
          (body_items body) rows"
    unfolding rows_def list_all2_map2 ord(1)
    by (rule list_all2_mono [OF l]) auto
  have sub: "\<forall>i\<in>set rows. subtotal i = unitPrice i * real_of_int (quantity i)"
    using l unfolding rows_def by (auto simp: list_all2_conv_all_nth in_set_conv_nth)
  from h d' rel sub sum ord(2) show ?thesis by blast
qed

theorem createOrder_totalAmount_witness:
  "\<exists>d' ord its.
     createOrder False ''ORD-20231215-ABC121234'' sample_db sample_user
       (sample_body [\<lparr>item_menuItemId = 1, item_quantity = 2\<rparr>]) = (d', Inr (ord, its))
     \<and> totalAmount ord = 14.99
     \<and> (\<exists>h rows.
          find (\<lambda>h. hotel_id h = body_hotelId (sample_body [\<lparr>item_menuItemId = 1, item_quantity = 2\<rparr>])
                     \<and> isActive h) (hotels sample_db) = Some h
        \<and> orders d' = orders sample_db @ [ord]
        \<and> orderItems d' = orderItems sample_db @ rows
        \<and> list_all2 (\<lambda>l i. \<exists>m. find (\<lambda>m. menuItem_id m = item_menuItemId l)
                                      (filter isAvailable (menuItems h)) = Some m
                              \<and> menuItemId i = menuItem_id m \<and> quantity i = item_quantity l
                              \<and> unitPrice i = price m \<and> orderId i = Some (order_id ord))
              (body_items (sample_body [\<lparr>item_menuItemId = 1, item_quantity = 2\<rparr>])) rows
        \<and> (\<forall>i\<in>set rows. subtotal i = unitPrice i * real_of_int (quantity i))
        \<and> totalAmount ord = (\<Sum>i\<leftarrow>rows. unitPrice i * real_of_int (quantity i)) + deliveryFee h)"
proof -
  have e: "createOrder False ''ORD-20231215-ABC121234'' sample_db sample_user
       (sample_body [\<lparr>item_menuItemId = 1, item_quantity = 2\<rparr>])
     = (db_with_order PENDING, Inr (sample_order PENDING, sample_rows))"
    by (simp add: createOrder_def sample_db_def sample_hotel_def sample_menu_def sample_user_def
        sample_body_def db_with_order_def sample_order_def sample_rows_def truthy_def Let_def)
  have t: "totalAmount (sample_order PENDING) = 14.99"
    by (simp add: sample_order_def)
  from createOrder_totalAmount [OF e] e t show ?thesis
    by blast
qed

text \<open>
  C3. For an active hotel and a cart whose lines all name available items with a
  quantity of at least 1, if the sum of price times quantity over the lines is below
  the hotel's minimum order amount, \<open>createOrder\<close> answers 400 with the minimum-order
  message and returns the store as it was: no order row and no order item row.
\<close>

theorem createOrder_below_minimum:
  assumes "find (\<lambda>h. hotel_id h = body_hotelId body \<and> isActive h) (hotels d) = Some h"
    and "\<forall>l\<in>set (body_items body). 1 \<le> item_quantity l
           \<and> find (\<lambda>m. menuItem_id m = item_menuItemId l) (filter isAvailable (menuItems h)) \<noteq> None"
    and "(\<Sum>l\<leftarrow>body_items body.
            price (the (find (\<lambda>m. menuItem_id m = item_menuItemId l) (filter isAvailable (menuItems h))))
            * real_of_int (item_quantity l)) < minOrderAmount h"
  shows "createOrder stripe number d user body =
           (d, Inl (400, MinimumOrderAmountIs (minOrderAmount h)))"
proof -
  from price_items_valid [OF assms(2), of 0 "[]"] obtain priced where
    "price_items (filter isAvailable (menuItems h)) (body_items body) 0 [] =
       Inr ((\<Sum>l\<leftarrow>body_items body.
            price (the (find (\<lambda>m. menuItem_id m = item_menuItemId l) (filter isAvailable (menuItems h))))
            * real_of_int (item_quantity l)), priced)"
    by auto
  with assms(1,3) show ?thesis
    by (simp add: createOrder_def Let_def)
qed

theorem createOrder_below_minimum_witness:
  "find (\<lambda>h. hotel_id h = 1 \<and> isActive h) (hotels sample_db) = Some sample_hotel
   \<and> (\<Sum>l\<leftarrow>[\<lparr>item_menuItemId = 2, item_quantity = 1\<rparr>].
         price (the (find (\<lambda>m. menuItem_id m = item_menuItemId l)
                       (filter isAvailable (menuItems sample_hotel))))
         * real_of_int (item_quantity l)) = 4
   \<and> minOrderAmount sample_hotel = 10
   \<and> createOrder True ''ORD-20231215-ABC121234'' sample_db sample_user
        (sample_body [\<lparr>item_menuItemId = 2, item_quantity = 1\<rparr>])
      = (sample_db, Inl (400, MinimumOrderAmountIs 10))"
proof -
  let ?body = "sample_body [\<lparr>item_menuItemId = 2, item_quantity = 1\<rparr>]"
  have h: "find (\<lambda>h. hotel_id h = body_hotelId ?body \<and> isActive h) (hotels sample_db) = Some sample_hotel"
    by (simp add: sample_db_def sample_hotel_def sample_body_def)
  have v: "\<forall>l\<in>set (body_items ?body). 1 \<le> item_quantity l
           \<and> find (\<lambda>m. menuItem_id m = item_menuItemId l) (filter isAvailable (menuItems sample_hotel)) \<noteq> None"
    by (simp add: sample_hotel_def sample_menu_def sample_body_def)
  have s: "(\<Sum>l\<leftarrow>body_items ?body.
            price (the (find (\<lambda>m. menuItem_id m = item_menuItemId l) (filter isAvailable (menuItems sample_hotel))))
            * real_of_int (item_quantity l)) = 4"
    by (simp add: sample_hotel_def sample_menu_def sample_body_def)
  have m: "minOrderAmount sample_hotel = 10"
    by (simp add: sample_hotel_def)
  have b: "(\<Sum>l\<leftarrow>body_items ?body.
            price (the (find (\<lambda>m. menuItem_id m = item_menuItemId l) (filter isAvailable (menuItems sample_hotel))))
            * real_of_int (item_quantity l)) < minOrderAmount sample_hotel"
    unfolding s m by simp
  from createOrder_below_minimum [OF h v b, of True "''ORD-20231215-ABC121234''" sample_user] h s m
  show ?thesis
    by (simp add: sample_body_def)
qed

section \<open>Properties of the status handlers and of reviews\<close>

lemma find_Some_set: "find P xs = Some x \<Longrightarrow> x \<in> set xs \<and> P x"
  by (induction xs) (auto split: if_splits)

lemma find_None_set: "find P xs = None \<longleftrightarrow> (\<forall>x\<in>set xs. \<not> P x)"
  by (induction xs) auto

lemma find_order_after_update:
  assumes "find (\<lambda>x. order_id x = oid) xs = Some ord"
    and "\<And>x. order_id (f x) = order_id x"
  shows "find (\<lambda>x. order_id x = oid) (map (\<lambda>x. if order_id x = oid then f x else x) xs)
           = Some (f ord)"
  using assms(1) by (induction xs) (auto simp: assms(2) split: if_splits)

text \<open>
  C2, as stated, fails: an administrator moves a delivered order back to \<open>PENDING\<close>,
  which is no edge of the specification's lifecycle, and the handler answers success.
\<close>

theorem updateOrderStatus_out_of_DELIVERED:
  "updateOrderStatus (db_with_order DELIVERED) sample_admin 1 PENDING None
     = (db_with_order PENDING, Inr (sample_order PENDING))
   \<and> \<not> spec_lifecycle_edge DELIVERED PENDING"
  by (simp add: updateOrderStatus_def db_with_order_def sample_order_def sample_admin_def
      truthy_def Let_def)

text \<open>
  C2, amended. \<open>updateOrderStatus\<close> has no transition table: for an existing order
  and a caller who passes the per-hotel check, every requested status is written,
  whatever the current status is, and the handler answers success with the updated
  order.
\<close>

theorem updateOrderStatus_any_status:
  assumes "find (\<lambda>x. order_id x = oid) (orders d) = Some ord"
    and "user_role user = HOTEL_ADMIN \<longrightarrow> user_hotelId user = Some (order_hotelId ord)"
  shows "\<exists>d' ord'. updateOrderStatus d user oid s notes = (d', Inr ord')
           \<and> status ord' = s
           \<and> find (\<lambda>x. order_id x = oid) (orders d') = Some ord'"
proof -
  let ?upd = "\<lambda>x. x\<lparr>status := s, deliveryNotes := (if truthy notes then notes else deliveryNotes x)\<rparr>"
  let ?d' = "d\<lparr>orders := map (\<lambda>x. if order_id x = oid then ?upd x else x) (orders d)\<rparr>"
  have r: "updateOrderStatus d user oid s notes = (?d', Inr (?upd ord))"
    using assms by (auto simp: updateOrderStatus_def Let_def)
  have "find (\<lambda>x. order_id x = oid) (orders ?d') = Some (?upd ord)"
    using find_order_after_update [OF assms(1), of ?upd] by simp
  with r show ?thesis by simp
qed

theorem updateOrderStatus_any_status_witness:
  "find (\<lambda>x. order_id x = 1) (orders (db_with_order DELIVERED)) = Some (sample_order DELIVERED)
   \<and> user_role sample_admin = ADMIN
   \<and> status (sample_order DELIVERED) = DELIVERED
   \<and> (\<exists>d' ord'. updateOrderStatus (db_with_order DELIVERED) sample_admin 1 PENDING None = (d', Inr ord')
           \<and> status ord' = PENDING
           \<and> find (\<lambda>x. order_id x = 1) (orders d') = Some ord')"
proof -
  have f: "find (\<lambda>x. order_id x = 1) (orders (db_with_order DELIVERED)) = Some (sample_order DELIVERED)"
    by (simp add: db_with_order_def sample_order_def)
  have r: "user_role sample_admin = ADMIN"
    by (simp add: sample_admin_def)
  then have a: "user_role sample_admin = HOTEL_ADMIN
        \<longrightarrow> user_hotelId sample_admin = Some (order_hotelId (sample_order DELIVERED))"
    by simp
  have s: "status (sample_order DELIVERED) = DELIVERED"
    by (simp add: sample_order_def)
  from updateOrderStatus_any_status [OF f a, of PENDING None] f r s show ?thesis
    by blast
qed

text \<open>
  C10. On an existing order, a \<open>HOTEL_ADMIN\<close> whose hotel id is not the order's is
  answered 403 and the store is returned as it was; an \<open>ADMIN\<close> is never stopped by
  this check, whatever hotel the order belongs to.
\<close>

theorem updateOrderStatus_hotel_admin:
  assumes "find (\<lambda>x. order_id x = oid) (orders d) = Some ord"
  shows "(user_role user = HOTEL_ADMIN \<and> user_hotelId user \<noteq> Some (order_hotelId ord)
            \<longrightarrow> updateOrderStatus d user oid s notes
                  = (d, Inl (403, NotAuthorizedToUpdateThisOrder)))
       \<and> (user_role user = ADMIN
            \<longrightarrow> (\<exists>d' ord'. updateOrderStatus d user oid s notes = (d', Inr ord')
                    \<and> status ord' = s))"
  using assms by (auto simp: updateOrderStatus_def Let_def)

theorem updateOrderStatus_hotel_admin_witness:
  "find (\<lambda>x. order_id x = 1) (orders (db_with_order PENDING)) = Some (sample_order PENDING)
   \<and> user_role other_hotel_admin = HOTEL_ADMIN
   \<and> user_hotelId other_hotel_admin \<noteq> Some (order_hotelId (sample_order PENDING))
   \<and> updateOrderStatus (db_with_order PENDING) other_hotel_admin 1 CONFIRMED None
        = (db_with_order PENDING, Inl (403, NotAuthorizedToUpdateThisOrder))
   \<and> user_role sample_admin = ADMIN
   \<and> user_hotelId sample_admin \<noteq> Some (order_hotelId (sample_order PENDING))
   \<and> (\<exists>d' ord'. updateOrderStatus (db_with_order PENDING) sample_admin 1 CONFIRMED None = (d', Inr ord')
          \<and> status ord' = CONFIRMED)"
proof -
  have f: "find (\<lambda>x. order_id x = 1) (orders (db_with_order PENDING)) = Some (sample_order PENDING)"
    by (simp add: db_with_order_def sample_order_def)
  have h: "user_role other_hotel_admin = HOTEL_ADMIN"
      "user_hotelId other_hotel_admin \<noteq> Some (order_hotelId (sample_order PENDING))"
    by (simp_all add: other_hotel_admin_def sample_order_def)
  have a: "user_role sample_admin = ADMIN"
      "user_hotelId sample_admin \<noteq> Some (order_hotelId (sample_order PENDING))"
    by (simp_all add: sample_admin_def)
  from updateOrderStatus_hotel_admin [OF f, of other_hotel_admin CONFIRMED None]
    updateOrderStatus_hotel_admin [OF f, of sample_admin CONFIRMED None] f h a
  show ?thesis by blast
qed

text \<open>
  C6, as stated, fails: a user who does not own a pending order is refused with 404
  (order not found or cannot be cancelled), not with a permission error.
\<close>

theorem cancelOrder_other_user_not_found:
  "user_id other_user \<noteq> order_userId (sample_order PENDING)
   \<and> cancelOrder (db_with_order PENDING) other_user 1
        = (db_with_order PENDING, Inl (404, OrderNotFoundOrCannotBeCancelled))
   \<and> \<not> permission_denied (snd (cancelOrder (db_with_order PENDING) other_user 1))"
  by (simp add: cancelOrder_def db_with_order_def sample_order_def other_user_def)

text \<open>
  C6, amended. \<open>cancelOrder\<close> succeeds exactly when the store holds an order with
  this id that the caller owns and whose status is \<open>PENDING\<close> or \<open>CONFIRMED\<close>; it then
  sets the status to \<open>CANCELLED\<close> and the payment status to \<open>REFUNDED\<close>. Every other
  request, whatever the caller's role, is answered 404 and the store is returned as it
  was.
\<close>

theorem cancelOrder_owner_only:
  "((\<exists>ord\<in>set (orders d). order_id ord = oid \<and> order_userId ord = user_id user
        \<and> (status ord = PENDING \<or> status ord = CONFIRMED))
     \<longrightarrow> (\<exists>d' ord'. cancelOrder d user oid = (d', Inr ord')
            \<and> status ord' = CANCELLED \<and> paymentStatus ord' = ''REFUNDED''
            \<and> order_id ord' = oid \<and> order_userId ord' = user_id user
            \<and> orders d' = map (\<lambda>x. if order_id x = oid
                                     then x\<lparr>status := CANCELLED, paymentStatus := ''REFUNDED''\<rparr>
                                     else x) (orders d)))
   \<and> (\<not> (\<exists>ord\<in>set (orders d). order_id ord = oid \<and> order_userId ord = user_id user
          \<and> (status ord = PENDING \<or> status ord = CONFIRMED))
     \<longrightarrow> cancelOrder d user oid = (d, Inl (404, OrderNotFoundOrCannotBeCancelled)))"
proof (intro conjI impI)
  let ?P = "\<lambda>x. order_id x = oid \<and> order_userId x = user_id user \<and> status x \<in> set [PENDING, CONFIRMED]"
  assume "\<exists>ord\<in>set (orders d). order_id ord = oid \<and> order_userId ord = user_id user
        \<and> (status ord = PENDING \<or> status ord = CONFIRMED)"
  then have "find ?P (orders d) \<noteq> None"
    by (auto simp: find_None_set)
  then obtain ord where f: "find ?P (orders d) = Some ord" by auto
  from find_Some_set [OF f] have "order_id ord = oid" "order_userId ord = user_id user" by auto
  with f show "\<exists>d' ord'. cancelOrder d user oid = (d', Inr ord')
            \<and> status ord' = CANCELLED \<and> paymentStatus ord' = ''REFUNDED''
            \<and> order_id ord' = oid \<and> order_userId ord' = user_id user
            \<and> orders d' = map (\<lambda>x. if order_id x = oid
                                     then x\<lparr>status := CANCELLED, paymentStatus := ''REFUNDED''\<rparr>
                                     else x) (orders d)"
    by (simp add: cancelOrder_def Let_def)
next
  let ?P = "\<lambda>x. order_id x = oid \<and> order_userId x = user_id user \<and> status x \<in> set [PENDING, CONFIRMED]"
  assume "\<not> (\<exists>ord\<in>set (orders d). order_id ord = oid \<and> order_userId ord = user_id user
          \<and> (status ord = PENDING \<or> status ord = CONFIRMED))"
  then have "find ?P (orders d) = None"
    by (auto simp: find_None_set)
  then show "cancelOrder d user oid = (d, Inl (404, OrderNotFoundOrCannotBeCancelled))"
    by (simp add: cancelOrder_def)
qed

theorem cancelOrder_owner_only_witness:
  "(\<exists>ord\<in>set (orders (db_with_order CONFIRMED)). order_id ord = 1
        \<and> order_userId ord = user_id sample_user
        \<and> (status ord = PENDING \<or> status ord = CONFIRMED))
   \<and> (\<exists>d' ord'. cancelOrder (db_with_order CONFIRMED) sample_user 1 = (d', Inr ord')
          \<and> status ord' = CANCELLED \<and> paymentStatus ord' = ''REFUNDED'')
   \<and> \<not> (\<exists>ord\<in>set (orders (db_with_order CONFIRMED)). order_id ord = 1
        \<and> order_userId ord = user_id sample_admin
        \<and> (status ord = PENDING \<or> status ord = CONFIRMED))
   \<and> cancelOrder (db_with_order CONFIRMED) sample_admin 1
        = (db_with_order CONFIRMED, Inl (404, OrderNotFoundOrCannotBeCancelled))"
proof -
  have y: "\<exists>ord\<in>set (orders (db_with_order CONFIRMED)). order_id ord = 1
        \<and> order_userId ord = user_id sample_user
        \<and> (status ord = PENDING \<or> status ord = CONFIRMED)"
    by (simp add: db_with_order_def sample_order_def sample_user_def)
  have n: "\<not> (\<exists>ord\<in>set (orders (db_with_order CONFIRMED)). order_id ord = 1
        \<and> order_userId ord = user_id sample_admin
        \<and> (status ord = PENDING \<or> status ord = CONFIRMED))"
    by (simp add: db_with_order_def sample_order_def sample_admin_def)
  from cancelOrder_owner_only [of "db_with_order CONFIRMED" 1 sample_user]
    cancelOrder_owner_only [of "db_with_order CONFIRMED" 1 sample_admin] y n
  show ?thesis by blast
qed

text \<open>
  C7, as stated, fails for the second attempt: after a review is stored and an
  administrator has moved the order out of \<open>DELIVERED\<close>, another attempt by the same user
  on the same order is answered 404 (order not found or cannot be reviewed), not 400
  (already reviewed); the review stays stored.
\<close>

theorem submitReview_second_attempt_not_found:
  "submitReview (db_with_order DELIVERED) sample_user 1 4 (Some ''Good'') None
     = (reviewed_db, Inr sample_review)
   \<and> updateOrderStatus reviewed_db sample_admin 1 PENDING None
     = (reopened_db, Inr (sample_order PENDING))
   \<and> submitReview reopened_db sample_user 1 5 None None
     = (reopened_db, Inl (404, OrderNotFoundOrCannotBeReviewed))
   \<and> snd (submitReview reopened_db sample_user 1 5 None None)
     \<noteq> Inl (400, YouHaveAlreadyReviewedThisOrder)
   \<and> sample_review \<in> set (reviews reopened_db)"
  by (simp add: submitReview_def updateOrderStatus_def db_with_order_def reviewed_db_def
      reopened_db_def sample_order_def sample_user_def sample_admin_def sample_review_def
      sample_hotel_def avg_rating_def truthy_def Let_def)

text \<open>
  C7, amended. \<open>submitReview\<close> changes the store only when it answers success, and it
  answers success exactly when the store holds an order with this id that the caller
  owns and whose status is \<open>DELIVERED\<close>, and no review of this order by this user; it
  then appends one review of that pair. Every failure returns the store as it was.
  When a review of the pair exists, the attempt is answered 400 (already reviewed)
  if the order is still the caller's \<open>DELIVERED\<close> order, and 404 if it is not; right after
  a success the answer to another attempt is 400. The (order, user) pairs of the stored
  reviews stay distinct.
\<close>

theorem submitReview_delivered_once:
  "(submitReview d user oid stars cmt imgs = (d', Inr rv) \<longrightarrow>
      (\<exists>ord\<in>set (orders d). order_id ord = oid \<and> order_userId ord = user_id user
          \<and> status ord = DELIVERED)
      \<and> \<not> (\<exists>r\<in>set (reviews d). review_orderId r = oid \<and> review_userId r = user_id user)
      \<and> reviews d' = reviews d @ [rv] \<and> orders d' = orders d
      \<and> review_orderId rv = oid \<and> review_userId rv = user_id user
      \<and> submitReview d' user oid stars2 cmt2 imgs2
          = (d', Inl (400, YouHaveAlreadyReviewedThisOrder)))
   \<and> (submitReview d user oid stars cmt imgs = (d', Inl e) \<longrightarrow> d' = d)
   \<and> (\<not> (\<exists>ord\<in>set (orders d). order_id ord = oid \<and> order_userId ord = user_id user
            \<and> status ord = DELIVERED) \<longrightarrow>
        submitReview d user oid stars cmt imgs = (d, Inl (404, OrderNotFoundOrCannotBeReviewed)))
   \<and> ((\<exists>ord\<in>set (orders d). order_id ord = oid \<and> order_userId ord = user_id user
            \<and> status ord = DELIVERED)
        \<and> (\<exists>r\<in>set (reviews d). review_orderId r = oid \<and> review_userId r = user_id user) \<longrightarrow>
        submitReview d user oid stars cmt imgs = (d, Inl (400, YouHaveAlreadyReviewedThisOrder)))
   \<and> ((\<exists>ord\<in>set (orders d). order_id ord = oid \<and> order_userId ord = user_id user
            \<and> status ord = DELIVERED)
        \<and> \<not> (\<exists>r\<in>set (reviews d). review_orderId r = oid \<and> review_userId r = user_id user) \<longrightarrow>
        (\<exists>d2 rv2. submitReview d user oid stars cmt imgs = (d2, Inr rv2)))
   \<and> (distinct (map (\<lambda>r. (review_orderId r, review_userId r)) (reviews d)) \<longrightarrow>
        distinct (map (\<lambda>r. (review_orderId r, review_userId r))
                    (reviews (fst (submitReview d user oid stars cmt imgs)))))"
proof -
  let ?O = "\<lambda>x. order_id x = oid \<and> order_userId x = user_id user \<and> status x = DELIVERED"
  let ?R = "\<lambda>r. review_orderId r = oid \<and> review_userId r = user_id user"
  let ?S = "submitReview d user oid stars cmt imgs"
  have no_order: "?S = (d, Inl (404, OrderNotFoundOrCannotBeReviewed))"
    if "\<not> (\<exists>ord\<in>set (orders d). ?O ord)"
  proof -
    from that have "find ?O (orders d) = None" by (auto simp: find_None_set)
    then show ?thesis by (simp add: submitReview_def)
  qed
  have dup: "?S = (d, Inl (400, YouHaveAlreadyReviewedThisOrder))"
    if "\<exists>ord\<in>set (orders d). ?O ord" "\<exists>r\<in>set (reviews d). ?R r"
  proof -
    from that(1) have "find ?O (orders d) \<noteq> None" by (auto simp: find_None_set)
    then obtain ord where o: "find ?O (orders d) = Some ord" by auto
    from that(2) have "find ?R (reviews d) \<noteq> None" by (auto simp: find_None_set)
    then obtain r where "find ?R (reviews d) = Some r" by auto
    with o show ?thesis by (simp add: submitReview_def)
  qed
  have fresh: "\<exists>d2 rv2. ?S = (d2, Inr rv2) \<and> reviews d2 = reviews d @ [rv2]
        \<and> orders d2 = orders d \<and> review_orderId rv2 = oid \<and> review_userId rv2 = user_id user"
    if "\<exists>ord\<in>set (orders d). ?O ord" "\<not> (\<exists>r\<in>set (reviews d). ?R r)"
  proof -
    from that(1) have "find ?O (orders d) \<noteq> None" by (auto simp: find_None_set)
    then obtain ord where o: "find ?O (orders d) = Some ord" by auto
    from that(2) have "find ?R (reviews d) = None" by (auto simp: find_None_set)
    with o show ?thesis by (simp add: submitReview_def Let_def)
  qed
  have c1: "(?S = (d', Inr rv) \<longrightarrow>
      (\<exists>ord\<in>set (orders d). ?O ord)
      \<and> \<not> (\<exists>r\<in>set (reviews d). ?R r)
      \<and> reviews d' = reviews d @ [rv] \<and> orders d' = orders d
      \<and> review_orderId rv = oid \<and> review_userId rv = user_id user
      \<and> submitReview d' user oid stars2 cmt2 imgs2
          = (d', Inl (400, YouHaveAlreadyReviewedThisOrder)))"
  proof
    assume ok: "?S = (d', Inr rv)"
    have o: "\<exists>ord\<in>set (orders d). ?O ord"
      using ok no_order by fastforce
    have r: "\<not> (\<exists>r\<in>set (reviews d). ?R r)"
      using ok dup [OF o] by fastforce
    from fresh [OF o r] ok have rv: "reviews d' = reviews d @ [rv]" "orders d' = orders d"
        "review_orderId rv = oid" "review_userId rv = user_id user"
      by auto
    have o': "find ?O (orders d') \<noteq> None"
      using o rv(2) by (auto simp: find_None_set)
    have r': "find ?R (reviews d') \<noteq> None"
      unfolding find_None_set rv(1) using rv(3,4) by simp
    from o' r' have "submitReview d' user oid stars2 cmt2 imgs2
          = (d', Inl (400, YouHaveAlreadyReviewedThisOrder))"
      by (auto simp: submitReview_def)
    with o r rv show "(\<exists>ord\<in>set (orders d). ?O ord)
      \<and> \<not> (\<exists>r\<in>set (reviews d). ?R r)
      \<and> reviews d' = reviews d @ [rv] \<and> orders d' = orders d
      \<and> review_orderId rv = oid \<and> review_userId rv = user_id user
      \<and> submitReview d' user oid stars2 cmt2 imgs2
          = (d', Inl (400, YouHaveAlreadyReviewedThisOrder))"
      by blast
  qed
  have c2: "?S = (d', Inl e) \<longrightarrow> d' = d"
  proof
    assume f: "?S = (d', Inl e)"
    show "d' = d"
    proof (cases "\<exists>ord\<in>set (orders d). ?O ord")
      case False
      from no_order [OF this] f show ?thesis by simp
    next
      case True
      show ?thesis
      proof (cases "\<exists>r\<in>set (reviews d). ?R r")
        case True
        from dup [OF \<open>\<exists>ord\<in>set (orders d). ?O ord\<close> this] f show ?thesis by simp
      next
        case False
        from fresh [OF True this] f show ?thesis by auto
      qed
    qed
  qed
  have c6: "distinct (map (\<lambda>r. (review_orderId r, review_userId r)) (reviews d)) \<longrightarrow>
        distinct (map (\<lambda>r. (review_orderId r, review_userId r)) (reviews (fst ?S)))"
  proof
    assume dist: "distinct (map (\<lambda>r. (review_orderId r, review_userId r)) (reviews d))"
    show "distinct (map (\<lambda>r. (review_orderId r, review_userId r)) (reviews (fst ?S)))"
    proof (cases "\<exists>ord\<in>set (orders d). ?O ord")
      case False
      from no_order [OF this] dist show ?thesis by simp
    next
      case True
      show ?thesis
      proof (cases "\<exists>r\<in>set (reviews d). ?R r")
        case True
        from dup [OF \<open>\<exists>ord\<in>set (orders d). ?O ord\<close> this] dist show ?thesis by simp
      next
        case False
        from fresh [OF True this] obtain d2 rv2 where s: "?S = (d2, Inr rv2)"
            "reviews d2 = reviews d @ [rv2]" "review_orderId rv2 = oid"
            "review_userId rv2 = user_id user"
          by blast
        from False have "(oid, user_id user)
            \<notin> (\<lambda>r. (review_orderId r, review_userId r)) ` set (reviews d)"
          by auto
        with dist s show ?thesis by simp
      qed
    qed
  qed
  from c1 c2 c6 no_order dup fresh show ?thesis by blast
qed

theorem submitReview_delivered_once_witness:
  "submitReview (db_with_order DELIVERED) sample_user 1 4 (Some ''Good'') None
     = (reviewed_db, Inr sample_review)
   \<and> reviews reviewed_db = reviews (db_with_order DELIVERED) @ [sample_review]
   \<and> (\<exists>ord\<in>set (orders reviewed_db). order_id ord = 1
         \<and> order_userId ord = user_id sample_user \<and> status ord = DELIVERED)
   \<and> (\<exists>r\<in>set (reviews reviewed_db). review_orderId r = 1 \<and> review_userId r = user_id sample_user)
   \<and> submitReview reviewed_db sample_user 1 5 None None
        = (reviewed_db, Inl (400, YouHaveAlreadyReviewedThisOrder))
   \<and> \<not> (\<exists>ord\<in>set (orders reopened_db). order_id ord = 1
         \<and> order_userId ord = user_id sample_user \<and> status ord = DELIVERED)
   \<and> submitReview reopened_db sample_user 1 5 None None
        = (reopened_db, Inl (404, OrderNotFoundOrCannotBeReviewed))
   \<and> (\<exists>ord\<in>set (orders (db_with_order DELIVERED)). order_id ord = 1
         \<and> order_userId ord = user_id sample_user \<and> status ord = DELIVERED)
   \<and> \<not> (\<exists>r\<in>set (reviews (db_with_order DELIVERED)). review_orderId r = 1
         \<and> review_userId r = user_id sample_user)
   \<and> (\<exists>d2 rv2. submitReview (db_with_order DELIVERED) sample_user 1 4 (Some ''Good'') None
          = (d2, Inr rv2))
   \<and> distinct (map (\<lambda>r. (review_orderId r, review_userId r)) (reviews reviewed_db))
   \<and> distinct (map (\<lambda>r. (review_orderId r, review_userId r))
                 (reviews (fst (submitReview reviewed_db sample_user 1 5 None None))))"
proof -
  have e: "submitReview (db_with_order DELIVERED) sample_user 1 4 (Some ''Good'') None
     = (reviewed_db, Inr sample_review)"
    by (simp add: submitReview_def db_with_order_def sample_order_def sample_user_def
        sample_review_def reviewed_db_def avg_rating_def sample_hotel_def Let_def)
  have o1: "\<exists>ord\<in>set (orders reviewed_db). order_id ord = 1
         \<and> order_userId ord = user_id sample_user \<and> status ord = DELIVERED"
    by (simp add: reviewed_db_def sample_order_def sample_user_def)
  have r1: "\<exists>r\<in>set (reviews reviewed_db). review_orderId r = 1 \<and> review_userId r = user_id sample_user"
    by (simp add: reviewed_db_def sample_review_def sample_user_def)
  have o2: "\<not> (\<exists>ord\<in>set (orders reopened_db). order_id ord = 1
         \<and> order_userId ord = user_id sample_user \<and> status ord = DELIVERED)"
    by (simp add: reopened_db_def sample_order_def)
  have o0: "\<exists>ord\<in>set (orders (db_with_order DELIVERED)). order_id ord = 1
         \<and> order_userId ord = user_id sample_user \<and> status ord = DELIVERED"
    by (simp add: db_with_order_def sample_order_def sample_user_def)
  have r0: "\<not> (\<exists>r\<in>set (reviews (db_with_order DELIVERED)). review_orderId r = 1
         \<and> review_userId r = user_id sample_user)"
    by (simp add: db_with_order_def)
  have d: "distinct (map (\<lambda>r. (review_orderId r, review_userId r)) (reviews reviewed_db))"
    by (simp add: reviewed_db_def)
  from submitReview_delivered_once [of "db_with_order DELIVERED" sample_user 1 4 "Some ''Good''" None
      reviewed_db sample_review 5 None None "(404, OrderNotFoundOrCannotBeReviewed)"]
    submitReview_delivered_once [of reviewed_db sample_user 1 5 None None
      reviewed_db sample_review 5 None None "(400, YouHaveAlreadyReviewedThisOrder)"]
    submitReview_delivered_once [of reopened_db sample_user 1 5 None None
      reopened_db sample_review 5 None None "(404, OrderNotFoundOrCannotBeReviewed)"]
    e o1 r1 o2 o0 r0 d
  show ?thesis by blast
qed

section \<open>Properties of the proximity search\<close>

lemma calculateDistance_meridian:
  assumes "lat1 \<le> lat2" "lat2 - lat1 < 180"
  shows "calculateDistance lat1 lon lat2 lon = 6371000 * toRad (lat2 - lat1)"
proof -
  define x where "x = toRad (lat2 - lat1) / 2"
  have xe: "x = (lat2 - lat1) / 360 * pi"
    by (simp add: x_def toRad_def)
  have "(lat2 - lat1) / 360 * pi < 1 / 2 * pi"
    using assms(2) pi_gt_zero by (intro mult_strict_right_mono) auto
  moreover have "0 \<le> (lat2 - lat1) / 360 * pi"
    using assms(1) pi_gt_zero by (intro mult_nonneg_nonneg) auto
  ultimately have x: "0 \<le> x" "x < pi / 2"
    unfolding xe by simp_all
  then have c: "0 < cos x" by (intro cos_gt_zero_pi) auto
  from x have s: "0 \<le> sin x" by (intro sin_ge_zero) auto
  have a: "haversine_a lat1 lon lat2 lon = sin x * sin x"
    by (simp add: haversine_a_def Let_def x_def toRad_def)
  have "1 - sin x * sin x = cos x * cos x"
    using sin_cos_squared_add [of x] by (simp add: power2_eq_square)
  with c have sq1: "sqrt (1 - sin x * sin x) = cos x" by simp
  from s have sq2: "sqrt (sin x * sin x) = sin x" by simp
  have "js_atan2 (sin x) (cos x) = arctan (tan x)"
    using c by (simp add: js_atan2_def tan_def)
  also have "\<dots> = x" using x by (intro arctan_tan) auto
  finally have at: "js_atan2 (sin x) (cos x) = x" .
  have "calculateDistance lat1 lon lat2 lon
          = 6371 * (2 * js_atan2 (sqrt (sin x * sin x)) (sqrt (1 - sin x * sin x))) * 1000"
    by (simp only: calculateDistance_def Let_def a)
  also have "\<dots> = 6371 * (2 * x) * 1000"
    by (simp only: sq1 sq2 at)
  also have "\<dots> = 6371000 * toRad (lat2 - lat1)"
    by (simp add: x_def)
  finally show ?thesis .
qed

lemma js_round_eq: "real_of_int z \<le> x + 1 / 2 \<Longrightarrow> x + 1 / 2 < real_of_int z + 1 \<Longrightarrow> js_round x = z"
  unfolding js_round_def by (rule floor_unique)

lemma toDegrees_toRad_add: "toDegrees (toRad x + a) = x + a * (180 / pi)"
  by (simp add: toDegrees_def toRad_def field_simps)

lemma toDegrees_toRad_diff: "toDegrees (toRad x - a) = x - a * (180 / pi)"
  by (simp add: toDegrees_def toRad_def field_simps)

lemma distance_hotel_a:
  "calculateDistance 40.7489 (- 73.968) 40.748902 (- 73.968) = 6371 * pi / 90000"
  by (subst calculateDistance_meridian) (simp_all add: toRad_def)

lemma distance_hotel_b:
  "calculateDistance 40.7489 (- 73.968) 40.748901 (- 73.968) = 6371 * pi / 180000"
  by (subst calculateDistance_meridian) (simp_all add: toRad_def)

lemma distance_hotel_a_bounds:
  "0 < calculateDistance 40.7489 (- 73.968) 40.748902 (- 73.968)"
  "calculateDistance 40.7489 (- 73.968) 40.748902 (- 73.968) < 3 / 10"
  unfolding distance_hotel_a using pi_gt_zero pi_less_4 by simp_all

lemma distance_hotel_b_bounds:
  "0 < calculateDistance 40.7489 (- 73.968) 40.748901 (- 73.968)"
  "calculateDistance 40.7489 (- 73.968) 40.748901 (- 73.968) < 3 / 10"
  unfolding distance_hotel_b using pi_gt_zero pi_less_4 by simp_all

lemma entry_hotel_a: "nearby_entry 40.7489 (- 73.968) hotel_a = Some entry_a"
proof -
  define da where "da = calculateDistance 40.7489 (- 73.968) 40.748902 (- 73.968)"
  have b: "0 < da" "da < 3 / 10"
    unfolding da_def by (rule distance_hotel_a_bounds)+
  then have r: "js_round da = 0" "js_round (da / 500 * 10 + 20) = 20"
    by (auto intro!: js_round_eq)
  from b have le: "da \<le> 4000" by simp
  show ?thesis
    using r le unfolding da_def by (simp add: nearby_entry_def hotel_a_def entry_a_def Let_def)
qed

lemma entry_hotel_b: "nearby_entry 40.7489 (- 73.968) hotel_b = Some entry_b"
proof -
  define db where "db = calculateDistance 40.7489 (- 73.968) 40.748901 (- 73.968)"
  have b: "0 < db" "db < 3 / 10"
    unfolding db_def by (rule distance_hotel_b_bounds)+
  then have r: "js_round db = 0" "js_round (db / 500 * 10 + 20) = 20"
    by (auto intro!: js_round_eq)
  from b have le: "db \<le> 3500" by simp
  show ?thesis
    using r le unfolding db_def by (simp add: nearby_entry_def hotel_b_def entry_b_def Let_def)
qed

lemma sample_bbox:
  "minLat (getBoundingBox 40.7489 (- 73.968) 3000) \<le> 40.7489"
  "40.749 \<le> maxLat (getBoundingBox 40.7489 (- 73.968) 3000)"
  "\<exists>w. 0 \<le> w \<and> minLng (getBoundingBox 40.7489 (- 73.968) 3000) = Some (- 73.968 - w)
       \<and> maxLng (getBoundingBox 40.7489 (- 73.968) 3000) = Some (- 73.968 + w)"
proof -
  define a :: real where "a = 3000 / 6371000"
  define c where "c = cos (toRad 40.7489)"
  have a: "0 < a" "a \<le> 1 / 2" by (simp_all add: a_def)
  have "toRad 40.7489 \<le> pi / 3" "0 \<le> toRad 40.7489"
    using pi_gt_zero by (simp_all add: toRad_def)
  then have "cos (pi / 3) \<le> cos (toRad 40.7489)"
    using pi_gt_zero by (intro cos_monotone_0_pi_le) auto
  then have c: "1 / 2 \<le> c" by (simp add: c_def cos_60)
  have s: "0 \<le> sin a" "sin a \<le> 1 / 2"
    using a sin_x_le_x [of a] pi_ge_two by (auto intro!: sin_ge_zero)
  have q: "0 \<le> sin a / c" "sin a / c \<le> 1"
    using s c by (simp_all add: field_simps)
  then have w: "0 \<le> arcsin (sin a / c)"
    by (intro arcsin_nonneg) simp
  have d: "(if c = 0 then None else js_asin (sin a / c)) = Some (arcsin (sin a / c))"
    using c q by (simp add: js_asin_def)
  define k where "k = a * (180 / pi)"
  have k: "0 < k" "1 / 10000 \<le> k"
    using pi_less_4 pi_gt_zero by (simp_all add: k_def a_def field_simps)
  have "minLat (getBoundingBox 40.7489 (- 73.968) 3000) = 40.7489 - k"
    by (simp add: getBoundingBox_def Let_def toDegrees_toRad_diff a_def k_def)
  with k show "minLat (getBoundingBox 40.7489 (- 73.968) 3000) \<le> 40.7489"
    by linarith
  have "maxLat (getBoundingBox 40.7489 (- 73.968) 3000) = 40.7489 + k"
    by (simp add: getBoundingBox_def Let_def toDegrees_toRad_add a_def k_def)
  with k show "40.749 \<le> maxLat (getBoundingBox 40.7489 (- 73.968) 3000)"
    by simp
  have "0 \<le> arcsin (sin a / c) * (180 / pi)"
    using w pi_gt_zero by simp
  then show "\<exists>w. 0 \<le> w \<and> minLng (getBoundingBox 40.7489 (- 73.968) 3000) = Some (- 73.968 - w)
       \<and> maxLng (getBoundingBox 40.7489 (- 73.968) 3000) = Some (- 73.968 + w)"
    using d unfolding getBoundingBox_def Let_def a_def c_def
    by (intro exI [of _ "arcsin (sin a / c) * (180 / pi)"])
       (simp add: toDegrees_toRad_add toDegrees_toRad_diff a_def c_def)
qed

lemma getNearbyHotels_building:
  "getNearbyHotels building_db sample_query = Inr [entry_a, entry_b]"
proof -
  define b where "b = getBoundingBox 40.7489 (- 73.968) 3000"
  from sample_bbox(3) obtain w where w: "0 \<le> w" "minLng b = Some (- 73.968 - w)"
      "maxLng b = Some (- 73.968 + w)"
    unfolding b_def by blast
  have la: "minLat b \<le> 40.7489" "40.749 \<le> maxLat b"
    unfolding b_def by (rule sample_bbox)+
  have ma: "isActive hotel_a" "gte (latitude hotel_a) (Some (minLat b))"
      "lte (latitude hotel_a) (Some (maxLat b))" "gte (longitude hotel_a) (minLng b)"
      "lte (longitude hotel_a) (maxLng b)"
    using la w by (simp_all add: gte_def lte_def hotel_a_def)
  have mb: "isActive hotel_b" "gte (latitude hotel_b) (Some (minLat b))"
      "lte (latitude hotel_b) (Some (maxLat b))" "gte (longitude hotel_b) (minLng b)"
      "lte (longitude hotel_b) (maxLng b)"
    using la w by (simp_all add: gte_def lte_def hotel_b_def)
  have e: "isDeliverable entry_a" "isDeliverable entry_b" "distance entry_a = 0"
      "distance entry_b = 0"
    by (simp_all add: entry_a_def entry_b_def)
  have x: "\<not> isActive closed_hotel" "\<not> gte (latitude unlocated_hotel) (Some (minLat b))"
    by (simp_all add: closed_hotel_def unlocated_hotel_def gte_def)
  show ?thesis
    using ma mb x entry_hotel_a entry_hotel_b unfolding b_def
    by (simp add: getNearbyHotels_def sample_query_def building_db_def Let_def truthy_def e)
qed

lemma nearby_entry_Some:
  assumes "nearby_entry userLat userLon h = Some e"
  shows "\<exists>hlat hlon. latitude h = Some hlat \<and> longitude h = Some hlon
           \<and> hlat \<noteq> 0 \<and> hlon \<noteq> 0 \<and> nh_hotel e = h
           \<and> distance e = js_round (calculateDistance userLat userLon hlat hlon)
           \<and> isDeliverable e
               = (calculateDistance userLat userLon hlat hlon \<le> real_of_int (deliveryRadius h))
           \<and> estimatedDeliveryTime e
               = js_round (calculateDistance userLat userLon hlat hlon / 500 * 10 + 20)"
  using assms by (auto simp: nearby_entry_def Let_def split: option.splits if_splits)

lemma getNearbyHotels_Inr:
  assumes "getNearbyHotels d q = Inr res"
  shows "\<exists>userLat userLon. q_latitude q = Some userLat \<and> q_longitude q = Some userLon
           \<and> length res \<le> 20 \<and> sorted (map distance res)
           \<and> (\<forall>e\<in>set res. isDeliverable e
                 \<and> (\<exists>h\<in>set (hotels d). isActive h \<and> nearby_entry userLat userLon h = Some e))"
proof -
  from assms obtain userLat userLon where q: "q_latitude q = Some userLat" "q_longitude q = Some userLon"
    by (auto simp: getNearbyHotels_def split: option.splits)
  define bbox where "bbox = getBoundingBox userLat userLon
      (real_of_int (case q_radius q of None \<Rightarrow> 3000 | Some r \<Rightarrow> r))"
  define found where "found = filter (\<lambda>h. isActive h
      \<and> gte (latitude h) (Some (minLat bbox)) \<and> lte (latitude h) (Some (maxLat bbox))
      \<and> gte (longitude h) (minLng bbox) \<and> lte (longitude h) (maxLng bbox)
      \<and> (if truthy (q_cuisine q)
          then (case cuisineType h of None \<Rightarrow> False
                | Some c \<Rightarrow> contains_insensitive c (the (q_cuisine q)))
          else True)) (hotels d)"
  have found: "set found \<subseteq> {h \<in> set (hotels d). isActive h}"
    by (auto simp: found_def)
  from assms q have res: "res = take 20 (sort_key distance
                [e. Some e \<leftarrow> map (nearby_entry userLat userLon) found, isDeliverable e])"
    by (simp add: getNearbyHotels_def Let_def found_def bbox_def)
  have len: "length res \<le> 20" unfolding res by simp
  have "sorted (take 20 (map distance (sort_key distance
                [e. Some e \<leftarrow> map (nearby_entry userLat userLon) found, isDeliverable e])))"
    by (intro sorted_wrt_take sorted_sort_key)
  then have srt: "sorted (map distance res)" unfolding res by (simp add: take_map)
  have "\<forall>e\<in>set res. isDeliverable e
          \<and> (\<exists>h\<in>set (hotels d). isActive h \<and> nearby_entry userLat userLon h = Some e)"
  proof
    fix e assume "e \<in> set res"
    then have "e \<in> set (sort_key distance
          [e. Some e \<leftarrow> map (nearby_entry userLat userLon) found, isDeliverable e])"
      unfolding res by (rule in_set_takeD)
    then have "e \<in> set [e. Some e \<leftarrow> map (nearby_entry userLat userLon) found, isDeliverable e]"
      by (simp only: set_sort)
    then obtain h where "h \<in> set found" "nearby_entry userLat userLon h = Some e" "isDeliverable e"
      by (auto split: option.splits if_splits)
    with found show "isDeliverable e
          \<and> (\<exists>h\<in>set (hotels d). isActive h \<and> nearby_entry userLat userLon h = Some e)"
      by auto
  qed
  with q len srt show ?thesis by blast
qed

text \<open>
  C4, as stated, fails for the order: two deliverable hotels whose exact distances
  round to the same metre are returned in catalog order, here the farther one first.
\<close>

theorem getNearbyHotels_nearer_hotel_listed_second:
  "getNearbyHotels building_db sample_query = Inr [entry_a, entry_b]
   \<and> q_latitude sample_query = Some 40.7489 \<and> q_longitude sample_query = Some (- 73.968)
   \<and> latitude (nh_hotel entry_a) = Some 40.748902
   \<and> longitude (nh_hotel entry_a) = Some (- 73.968)
   \<and> latitude (nh_hotel entry_b) = Some 40.748901
   \<and> longitude (nh_hotel entry_b) = Some (- 73.968)
   \<and> calculateDistance 40.7489 (- 73.968) 40.748901 (- 73.968)
       < calculateDistance 40.7489 (- 73.968) 40.748902 (- 73.968)"
proof -
  have "calculateDistance 40.7489 (- 73.968) 40.748901 (- 73.968)
       < calculateDistance 40.7489 (- 73.968) 40.748902 (- 73.968)"
    unfolding distance_hotel_a distance_hotel_b using pi_gt_zero by simp
  then show ?thesis
    using getNearbyHotels_building
    by (simp add: sample_query_def entry_a_def entry_b_def hotel_a_def hotel_b_def)
qed

text \<open>
  C4, amended. For every hotel returned, the exact distance from the query point is at
  most the hotel's own \<open>deliveryRadius\<close>, whatever the search radius; the returned
  \<open>distance\<close> is the exact distance rounded to the nearest metre, and the list is sorted
  ascending by that rounded distance.
\<close>

theorem getNearbyHotels_radius_and_order:
  assumes "getNearbyHotels d q = Inr res"
  shows "\<exists>userLat userLon. q_latitude q = Some userLat \<and> q_longitude q = Some userLon
     \<and> (\<forall>e\<in>set res. \<exists>hlat hlon.
            latitude (nh_hotel e) = Some hlat \<and> longitude (nh_hotel e) = Some hlon
          \<and> calculateDistance userLat userLon hlat hlon \<le> real_of_int (deliveryRadius (nh_hotel e))
          \<and> distance e = js_round (calculateDistance userLat userLon hlat hlon))
     \<and> sorted (map distance res)"
proof -
  from getNearbyHotels_Inr [OF assms] obtain userLat userLon where
    q: "q_latitude q = Some userLat" "q_longitude q = Some userLon"
    and srt: "sorted (map distance res)"
    and el: "\<forall>e\<in>set res. isDeliverable e
                 \<and> (\<exists>h\<in>set (hotels d). isActive h \<and> nearby_entry userLat userLon h = Some e)"
    by blast
  have "\<forall>e\<in>set res. \<exists>hlat hlon.
            latitude (nh_hotel e) = Some hlat \<and> longitude (nh_hotel e) = Some hlon
          \<and> calculateDistance userLat userLon hlat hlon \<le> real_of_int (deliveryRadius (nh_hotel e))
          \<and> distance e = js_round (calculateDistance userLat userLon hlat hlon)"
  proof
    fix e assume "e \<in> set res"
    with el obtain h where h: "isDeliverable e" "nearby_entry userLat userLon h = Some e"
      by blast
    from nearby_entry_Some [OF h(2)] h(1)
    show "\<exists>hlat hlon.
            latitude (nh_hotel e) = Some hlat \<and> longitude (nh_hotel e) = Some hlon
          \<and> calculateDistance userLat userLon hlat hlon \<le> real_of_int (deliveryRadius (nh_hotel e))
          \<and> distance e = js_round (calculateDistance userLat userLon hlat hlon)"
      by auto
  qed
  with q srt show ?thesis by blast
qed

theorem getNearbyHotels_radius_and_order_witness:
  "getNearbyHotels building_db sample_query = Inr [entry_a, entry_b]
   \<and> (\<exists>userLat userLon. q_latitude sample_query = Some userLat
        \<and> q_longitude sample_query = Some userLon
        \<and> (\<forall>e\<in>set [entry_a, entry_b]. \<exists>hlat hlon.
               latitude (nh_hotel e) = Some hlat \<and> longitude (nh_hotel e) = Some hlon
             \<and> calculateDistance userLat userLon hlat hlon \<le> real_of_int (deliveryRadius (nh_hotel e))
             \<and> distance e = js_round (calculateDistance userLat userLon hlat hlon))
        \<and> sorted (map distance [entry_a, entry_b]))"
  using getNearbyHotels_radius_and_order [OF getNearbyHotels_building] getNearbyHotels_building
  by blast

text \<open>
  C5. The list returned has at most 20 entries, and every entry is a hotel of the store
  that is active and has both a latitude and a longitude.
\<close>

theorem getNearbyHotels_limit_active_located:
  assumes "getNearbyHotels d q = Inr res"
  shows "length res \<le> 20
     \<and> (\<forall>e\<in>set res. nh_hotel e \<in> set (hotels d) \<and> isActive (nh_hotel e)
            \<and> latitude (nh_hotel e) \<noteq> None \<and> longitude (nh_hotel e) \<noteq> None)"
proof -
  from getNearbyHotels_Inr [OF assms] obtain userLat userLon where
    len: "length res \<le> 20"
    and el: "\<forall>e\<in>set res. isDeliverable e
                 \<and> (\<exists>h\<in>set (hotels d). isActive h \<and> nearby_entry userLat userLon h = Some e)"
    by blast
  have "\<forall>e\<in>set res. nh_hotel e \<in> set (hotels d) \<and> isActive (nh_hotel e)
            \<and> latitude (nh_hotel e) \<noteq> None \<and> longitude (nh_hotel e) \<noteq> None"
  proof
    fix e assume "e \<in> set res"
    with el obtain h where h: "h \<in> set (hotels d)" "isActive h"
        "nearby_entry userLat userLon h = Some e"
      by blast
    from nearby_entry_Some [OF h(3)] h(1,2)
    show "nh_hotel e \<in> set (hotels d) \<and> isActive (nh_hotel e)
            \<and> latitude (nh_hotel e) \<noteq> None \<and> longitude (nh_hotel e) \<noteq> None"
      by auto
  qed
  with len show ?thesis by simp
qed

theorem getNearbyHotels_limit_active_located_witness:
  "getNearbyHotels building_db sample_query = Inr [entry_a, entry_b]
   \<and> length [entry_a, entry_b] \<le> 20
   \<and> nh_hotel entry_a \<in> set (hotels building_db) \<and> isActive (nh_hotel entry_a)
   \<and> latitude (nh_hotel entry_a) \<noteq> None \<and> longitude (nh_hotel entry_a) \<noteq> None
   \<and> nh_hotel entry_b \<in> set (hotels building_db) \<and> isActive (nh_hotel entry_b)
   \<and> latitude (nh_hotel entry_b) \<noteq> None \<and> longitude (nh_hotel entry_b) \<noteq> None
   \<and> closed_hotel \<in> set (hotels building_db) \<and> \<not> isActive closed_hotel
   \<and> unlocated_hotel \<in> set (hotels building_db) \<and> latitude unlocated_hotel = None"
  using getNearbyHotels_limit_active_located [OF getNearbyHotels_building] getNearbyHotels_building
  by (simp add: building_db_def closed_hotel_def unlocated_hotel_def)

text \<open>
  C9, as stated, fails: for a hotel 0.2 m away the ceiling of \<open>distance / 500 * 10 + 20\<close>
  is 21 while the estimate attached is 20.
\<close>

theorem getNearbyHotels_estimate_below_ceiling:
  "getNearbyHotels building_db sample_query = Inr [entry_a, entry_b]
   \<and> q_latitude sample_query = Some 40.7489 \<and> q_longitude sample_query = Some (- 73.968)
   \<and> latitude (nh_hotel entry_a) = Some 40.748902
   \<and> longitude (nh_hotel entry_a) = Some (- 73.968)
   \<and> estimatedDeliveryTime entry_a = 20
   \<and> \<lceil>calculateDistance 40.7489 (- 73.968) 40.748902 (- 73.968) / 500 * 10 + 20\<rceil> = 21"
proof -
  define da where "da = calculateDistance 40.7489 (- 73.968) 40.748902 (- 73.968)"
  have "0 < da" "da < 3 / 10"
    unfolding da_def by (rule distance_hotel_a_bounds)+
  then have "\<lceil>da / 500 * 10 + 20\<rceil> = 21"
    by (intro ceiling_unique) simp_all
  then show ?thesis
    using getNearbyHotels_building unfolding da_def
    by (simp add: sample_query_def entry_a_def hotel_a_def)
qed

text \<open>
  C9, amended. The estimate attached to every hotel returned is
  \<open>distance / 500 * 10 + 20\<close> rounded to the nearest integer (\<open>Math.round\<close>: the floor of
  the value plus one half), where \<open>distance\<close> is the exact distance in metres.
\<close>

theorem getNearbyHotels_estimate_rounded:
  assumes "getNearbyHotels d q = Inr res"
  shows "\<exists>userLat userLon. q_latitude q = Some userLat \<and> q_longitude q = Some userLon
     \<and> (\<forall>e\<in>set res. \<exists>hlat hlon.
            latitude (nh_hotel e) = Some hlat \<and> longitude (nh_hotel e) = Some hlon
          \<and> estimatedDeliveryTime e
              = \<lfloor>calculateDistance userLat userLon hlat hlon / 500 * 10 + 20 + 1 / 2\<rfloor>)"
proof -
  from getNearbyHotels_Inr [OF assms] obtain userLat userLon where
    q: "q_latitude q = Some userLat" "q_longitude q = Some userLon"
    and el: "\<forall>e\<in>set res. isDeliverable e
                 \<and> (\<exists>h\<in>set (hotels d). isActive h \<and> nearby_entry userLat userLon h = Some e)"
    by blast
  have "\<forall>e\<in>set res. \<exists>hlat hlon.
            latitude (nh_hotel e) = Some hlat \<and> longitude (nh_hotel e) = Some hlon
          \<and> estimatedDeliveryTime e
              = \<lfloor>calculateDistance userLat userLon hlat hlon / 500 * 10 + 20 + 1 / 2\<rfloor>"
  proof
    fix e assume "e \<in> set res"
    with el obtain h where h: "nearby_entry userLat userLon h = Some e"
      by blast
    from nearby_entry_Some [OF h]
    show "\<exists>hlat hlon.
            latitude (nh_hotel e) = Some hlat \<and> longitude (nh_hotel e) = Some hlon
          \<and> estimatedDeliveryTime e
              = \<lfloor>calculateDistance userLat userLon hlat hlon / 500 * 10 + 20 + 1 / 2\<rfloor>"
      unfolding js_round_def by auto
  qed
  with q show ?thesis by blast
qed

theorem getNearbyHotels_estimate_rounded_witness:
  "getNearbyHotels building_db sample_query = Inr [entry_a, entry_b]
   \<and> (\<exists>userLat userLon. q_latitude sample_query = Some userLat
        \<and> q_longitude sample_query = Some userLon
        \<and> (\<forall>e\<in>set [entry_a, entry_b]. \<exists>hlat hlon.
               latitude (nh_hotel e) = Some hlat \<and> longitude (nh_hotel e) = Some hlon
             \<and> estimatedDeliveryTime e
                 = \<lfloor>calculateDistance userLat userLon hlat hlon / 500 * 10 + 20 + 1 / 2\<rfloor>))"
  using getNearbyHotels_estimate_rounded [OF getNearbyHotels_building] getNearbyHotels_building
  by blast

end
